theory Spec2Isabelle
  imports Main
begin

section \<open>The job store (src/store/queue.store.ts)\<close>

subsection \<open>Data model (src/types/video.types.ts)\<close>

text \<open>
  \<^verbatim>\<open>VideoStatus\<close> and \<^verbatim>\<open>Platform\<close> are string-literal unions; \<^verbatim>\<open>VideoJob\<close> and
  \<^verbatim>\<open>QueueState\<close> are interfaces. Optional fields (\<^verbatim>\<open>videoUrl?: string\<close>) are options, with
  \<open>None\<close> for \<^verbatim>\<open>undefined\<close>. The store never looks inside \<^verbatim>\<open>ProductInfo\<close> and
  \<^verbatim>\<open>VideoSettings\<close>, which are the type parameters \<open>'p\<close> and \<open>'s\<close>. The numbers the store
  computes with (progress, retry count, timestamps, counters) are integers.
\<close>

datatype VideoStatus = Pending | Processing | Completed | Failed | Cancelled

datatype Platform = Tiktok | Shopee | Lazada

record ('p, 's) VideoJob =
  jobId :: string
  status :: VideoStatus
  progress :: int
  product :: 'p
  prompt :: string
  customPrompt :: "string option"
  settings :: 's
  videoUrl :: "string option"
  thumbnailUrl :: "string option"
  localPath :: "string option"
  flowJobId :: "string option"
  platforms :: "Platform list"
  scheduledAt :: "int option"
  createdAt :: int
  updatedAt :: int
  completedAt :: "int option"
  error :: "string option"
  retryCount :: int

record QueueStats =
  total :: nat
  pending :: nat
  processing :: nat
  completed :: nat
  failed :: nat

record ('p, 's) QueueState =
  jobs :: "('p, 's) VideoJob list"
  activeJobId :: "string option"
  isProcessing :: bool
  stats :: QueueStats
  dailyLimit :: int
  dailyCreated :: int

text \<open>The parameter object of \<^verbatim>\<open>addJob\<close>.\<close>

record ('p, 's) JobParams =
  p_product :: 'p
  p_prompt :: string
  p_customPrompt :: "string option"
  p_settings :: 's
  p_platforms :: "Platform list"
  p_scheduledAt :: "int option"

subsection \<open>Constants (config/constants)\<close>

definition MAX_QUEUE_SIZE :: nat where
  "MAX_QUEUE_SIZE = 100"

definition MAX_CONCURRENT_JOBS :: nat where
  "MAX_CONCURRENT_JOBS = 3"

definition DEFAULT_RETRY_COUNT :: int where
  "DEFAULT_RETRY_COUNT = 3"

definition initialState :: "('p, 's) QueueState" where
  "initialState =
     \<lparr>jobs = [], activeJobId = None, isProcessing = False,
      stats = \<lparr>total = 0, pending = 0, processing = 0, completed = 0, failed = 0\<rparr>,
      dailyLimit = 50, dailyCreated = 0\<rparr>"

subsection \<open>Operations\<close>

text \<open>
  Each action of the store reads the state with \<^verbatim>\<open>get()\<close> and replaces part of it with
  \<^verbatim>\<open>set(...)\<close>; the model takes the state and returns the new one. \<^verbatim>\<open>Date.now()\<close> and
  \<^verbatim>\<open>generateId()\<close> are readings of the environment: the argument \<open>now\<close> is the clock
  reading of the call (the readings inside one object literal are taken as one), \<open>newId\<close>
  the identifier \<^verbatim>\<open>crypto.randomUUID()\<close> returned. \<^verbatim>\<open>addJob\<close> is the only action that
  throws; its result is the pair of what the caller gets (the error or the new job)
  and the state afterwards.
\<close>

datatype store_error = QueueLimitReached nat

definition newJob :: "string \<Rightarrow> int \<Rightarrow> ('p, 's) JobParams \<Rightarrow> ('p, 's) VideoJob" where
  "newJob newId now params =
     \<lparr>jobId = newId, status = Pending, progress = 0,
      product = p_product params, prompt = p_prompt params,
      customPrompt = p_customPrompt params, settings = p_settings params,
      videoUrl = None, thumbnailUrl = None, localPath = None, flowJobId = None,
      platforms = p_platforms params, scheduledAt = p_scheduledAt params,
      createdAt = now, updatedAt = now, completedAt = None, error = None,
      retryCount = 0\<rparr>"

definition addJob ::
  "string \<Rightarrow> int \<Rightarrow> ('p, 's) JobParams \<Rightarrow> ('p, 's) QueueState
     \<Rightarrow> (store_error + ('p, 's) VideoJob) \<times> ('p, 's) QueueState" where
  "addJob newId now params s =
     (if length (jobs s) \<ge> MAX_QUEUE_SIZE then (Inl (QueueLimitReached MAX_QUEUE_SIZE), s)
      else (Inr (newJob newId now params),
            s\<lparr>jobs := jobs s @ [newJob newId now params]\<rparr>))"

definition removeJob :: "string \<Rightarrow> ('p, 's) QueueState \<Rightarrow> ('p, 's) QueueState" where
  "removeJob i s =
     s\<lparr>jobs := filter (\<lambda>job. jobId job \<noteq> i) (jobs s),
       activeJobId := (if activeJobId s = Some i then None else activeJobId s)\<rparr>"

definition clearCompletedJobs :: "('p, 's) QueueState \<Rightarrow> ('p, 's) QueueState" where
  "clearCompletedJobs s = s\<lparr>jobs := filter (\<lambda>job. status job \<noteq> Completed) (jobs s)\<rparr>"

definition clearFailedJobs :: "('p, 's) QueueState \<Rightarrow> ('p, 's) QueueState" where
  "clearFailedJobs s =
     s\<lparr>jobs := filter (\<lambda>job. status job \<noteq> Failed \<and> status job \<noteq> Cancelled) (jobs s)\<rparr>"

definition clearAllJobs :: "('p, 's) QueueState \<Rightarrow> ('p, 's) QueueState" where
  "clearAllJobs s = s\<lparr>jobs := [], activeJobId := None, isProcessing := False\<rparr>"

definition startJob :: "int \<Rightarrow> string \<Rightarrow> ('p, 's) QueueState \<Rightarrow> ('p, 's) QueueState" where
  "startJob now i s =
     s\<lparr>jobs := map (\<lambda>job. if jobId job = i
                            then job\<lparr>status := Processing, progress := 0, updatedAt := now\<rparr>
                            else job) (jobs s),
       activeJobId := Some i,
       isProcessing := True\<rparr>"

definition completeJob ::
  "int \<Rightarrow> string \<Rightarrow> string \<Rightarrow> string option \<Rightarrow> ('p, 's) QueueState \<Rightarrow> ('p, 's) QueueState" where
  "completeJob now i url thumb s =
     s\<lparr>jobs := map (\<lambda>job. if jobId job = i
                            then job\<lparr>status := Completed, progress := 100,
                                     videoUrl := Some url, thumbnailUrl := thumb,
                                     completedAt := Some now, updatedAt := now\<rparr>
                            else job) (jobs s),
       activeJobId := None,
       isProcessing := False,
       dailyCreated := dailyCreated s + 1\<rparr>"

definition failJob :: "int \<Rightarrow> string \<Rightarrow> string \<Rightarrow> ('p, 's) QueueState \<Rightarrow> ('p, 's) QueueState" where
  "failJob now i err s =
     s\<lparr>jobs := map (\<lambda>job. if jobId job = i
                            then job\<lparr>status := Failed, error := Some err, updatedAt := now\<rparr>
                            else job) (jobs s),
       activeJobId := None,
       isProcessing := False\<rparr>"

definition retryJob :: "int \<Rightarrow> string \<Rightarrow> ('p, 's) QueueState \<Rightarrow> ('p, 's) QueueState" where
  "retryJob now i s =
     (case find (\<lambda>j. jobId j = i) (jobs s) of
        None \<Rightarrow> s
      | Some job \<Rightarrow>
          if retryCount job \<ge> DEFAULT_RETRY_COUNT then s
          else s\<lparr>jobs := map (\<lambda>j. if jobId j = i
                                    then j\<lparr>status := Pending, progress := 0, error := None,
                                           retryCount := retryCount j + 1, updatedAt := now\<rparr>
                                    else j) (jobs s)\<rparr>)"

definition cancelJob :: "int \<Rightarrow> string \<Rightarrow> ('p, 's) QueueState \<Rightarrow> ('p, 's) QueueState" where
  "cancelJob now i s =
     s\<lparr>jobs := map (\<lambda>job. if jobId job = i
                            then job\<lparr>status := Cancelled, updatedAt := now\<rparr>
                            else job) (jobs s),
       activeJobId := (if activeJobId s = Some i then None else activeJobId s),
       isProcessing := (if activeJobId s = Some i then False else isProcessing s)\<rparr>"

definition updateProgress :: "int \<Rightarrow> string \<Rightarrow> int \<Rightarrow> ('p, 's) QueueState \<Rightarrow> ('p, 's) QueueState" where
  "updateProgress now i p s =
     s\<lparr>jobs := map (\<lambda>job. if jobId job = i then job\<lparr>progress := p, updatedAt := now\<rparr> else job)
                   (jobs s)\<rparr>"

definition setFlowJobId :: "int \<Rightarrow> string \<Rightarrow> string \<Rightarrow> ('p, 's) QueueState \<Rightarrow> ('p, 's) QueueState" where
  "setFlowJobId now i fid s =
     s\<lparr>jobs := map (\<lambda>job. if jobId job = i then job\<lparr>flowJobId := Some fid, updatedAt := now\<rparr>
                            else job) (jobs s)\<rparr>"

definition setActiveJob :: "string option \<Rightarrow> ('p, 's) QueueState \<Rightarrow> ('p, 's) QueueState" where
  "setActiveJob i s = s\<lparr>activeJobId := i\<rparr>"

definition setProcessing :: "bool \<Rightarrow> ('p, 's) QueueState \<Rightarrow> ('p, 's) QueueState" where
  "setProcessing b s = s\<lparr>isProcessing := b\<rparr>"

definition getNextPendingJob :: "('p, 's) QueueState \<Rightarrow> ('p, 's) VideoJob option" where
  "getNextPendingJob s = find (\<lambda>job. status job = Pending) (jobs s)"

definition getJobById :: "('p, 's) QueueState \<Rightarrow> string \<Rightarrow> ('p, 's) VideoJob option" where
  "getJobById s i = find (\<lambda>job. jobId job = i) (jobs s)"

definition getStats :: "('p, 's) QueueState \<Rightarrow> QueueStats" where
  "getStats s =
     \<lparr>total = length (jobs s),
      pending = length (filter (\<lambda>j. status j = Pending) (jobs s)),
      processing = length (filter (\<lambda>j. status j = Processing) (jobs s)),
      completed = length (filter (\<lambda>j. status j = Completed) (jobs s)),
      failed = length (filter (\<lambda>j. status j = Failed) (jobs s))\<rparr>"

definition incrementDailyCreated :: "('p, 's) QueueState \<Rightarrow> ('p, 's) QueueState" where
  "incrementDailyCreated s = s\<lparr>dailyCreated := dailyCreated s + 1\<rparr>"

definition resetDailyStats :: "('p, 's) QueueState \<Rightarrow> ('p, 's) QueueState" where
  "resetDailyStats s = s\<lparr>dailyCreated := 0\<rparr>"

subsection \<open>Sequences of store operations\<close>

text \<open>
  One constructor per action of the store that writes the state, with the arguments of
  the call and the environment's readings. (\<^verbatim>\<open>updateJob\<close>, which merges an arbitrary
  partial job into a job, is not part of the sequences considered here.)
\<close>

datatype ('p, 's) store_op =
    AddJob string int "('p, 's) JobParams"
  | RemoveJob string
  | ClearCompletedJobs
  | ClearFailedJobs
  | ClearAllJobs
  | StartJob int string
  | CompleteJob int string string "string option"
  | FailJob int string string
  | RetryJob int string
  | CancelJob int string
  | UpdateProgress int string int
  | SetFlowJobId int string string
  | SetActiveJob "string option"
  | SetProcessing bool
  | IncrementDailyCreated
  | ResetDailyStats

fun apply_op :: "('p, 's) store_op \<Rightarrow> ('p, 's) QueueState \<Rightarrow> ('p, 's) QueueState" where
  "apply_op (AddJob newId now params) s = snd (addJob newId now params s)"
| "apply_op (RemoveJob i) s = removeJob i s"
| "apply_op ClearCompletedJobs s = clearCompletedJobs s"
| "apply_op ClearFailedJobs s = clearFailedJobs s"
| "apply_op ClearAllJobs s = clearAllJobs s"
| "apply_op (StartJob now i) s = startJob now i s"
| "apply_op (CompleteJob now i url thumb) s = completeJob now i url thumb s"
| "apply_op (FailJob now i err) s = failJob now i err s"
| "apply_op (RetryJob now i) s = retryJob now i s"
| "apply_op (CancelJob now i) s = cancelJob now i s"
| "apply_op (UpdateProgress now i p) s = updateProgress now i p s"
| "apply_op (SetFlowJobId now i fid) s = setFlowJobId now i fid s"
| "apply_op (SetActiveJob i) s = setActiveJob i s"
| "apply_op (SetProcessing b) s = setProcessing b s"
| "apply_op IncrementDailyCreated s = incrementDailyCreated s"
| "apply_op ResetDailyStats s = resetDailyStats s"

fun run_ops :: "('p, 's) store_op list \<Rightarrow> ('p, 's) QueueState \<Rightarrow> ('p, 's) QueueState" where
  "run_ops [] s = s"
| "run_ops (op # ops) s = run_ops ops (apply_op op s)"

subsection \<open>The state machine of the specification, as a check on a sequence\<close>

text \<open>
  The store applies a transition to a job in any status. \<open>sm_valid op s\<close> says that the
  operation \<open>op\<close> is one of the transitions the state machine lists, for every job
  it changes: start from pending, complete and fail from processing, cancel from
  pending or processing, retry from failed. \<open>follows_sm ops s\<close> says so of every operation
  of a sequence, at the state it is applied to.
\<close>

definition all_with_id :: "string \<Rightarrow> (VideoStatus \<Rightarrow> bool) \<Rightarrow> ('p, 's) QueueState \<Rightarrow> bool" where
  "all_with_id i ok s = list_all (\<lambda>job. jobId job = i \<longrightarrow> ok (status job)) (jobs s)"

fun sm_valid :: "('p, 's) store_op \<Rightarrow> ('p, 's) QueueState \<Rightarrow> bool" where
  "sm_valid (StartJob now i) s = all_with_id i (\<lambda>st. st = Pending) s"
| "sm_valid (CompleteJob now i url thumb) s = all_with_id i (\<lambda>st. st = Processing) s"
| "sm_valid (FailJob now i err) s = all_with_id i (\<lambda>st. st = Processing) s"
| "sm_valid (CancelJob now i) s = all_with_id i (\<lambda>st. st = Pending \<or> st = Processing) s"
| "sm_valid (RetryJob now i) s = all_with_id i (\<lambda>st. st = Failed) s"
| "sm_valid _ s = True"

fun follows_sm :: "('p, 's) store_op list \<Rightarrow> ('p, 's) QueueState \<Rightarrow> bool" where
  "follows_sm [] s = True"
| "follows_sm (op # ops) s = (sm_valid op s \<and> follows_sm ops (apply_op op s))"




subsection \<open>Example inputs\<close>

definition demo_params :: "(unit, unit) JobParams" where
  "demo_params =
     \<lparr>p_product = (), p_prompt = ''review the product'', p_customPrompt = None,
      p_settings = (), p_platforms = [Tiktok], p_scheduledAt = None\<rparr>"

definition demo_completed :: "(unit, unit) QueueState" where
  "demo_completed =
     run_ops [AddJob ''j1'' 10 demo_params, StartJob 20 ''j1'',
              CompleteJob 30 ''j1'' ''https://video/1'' None] initialState"

definition demo_failed :: "(unit, unit) QueueState" where
  "demo_failed =
     run_ops [AddJob ''j1'' 10 demo_params, StartJob 20 ''j1'',
              FailJob 30 ''j1'' ''Video generation timed out''] initialState"

definition demo_four_started :: "(unit, unit) QueueState" where
  "demo_four_started =
     run_ops [AddJob ''j1'' 10 demo_params, StartJob 11 ''j1'',
              AddJob ''j2'' 12 demo_params, StartJob 13 ''j2'',
              AddJob ''j3'' 14 demo_params, StartJob 15 ''j3'',
              AddJob ''j4'' 16 demo_params, StartJob 17 ''j4''] initialState"


definition demo_exhausted :: "(unit, unit) QueueState" where
  "demo_exhausted =
     run_ops [AddJob ''j1'' 10 demo_params,
              StartJob 20 ''j1'', FailJob 30 ''j1'' ''Generation failed'', RetryJob 40 ''j1'',
              StartJob 50 ''j1'', FailJob 60 ''j1'' ''Generation failed'', RetryJob 70 ''j1'',
              StartJob 80 ''j1'', FailJob 90 ''j1'' ''Generation failed'', RetryJob 100 ''j1'',
              StartJob 110 ''j1'', FailJob 120 ''j1'' ''Generation failed''] initialState"


subsection \<open>The invariant on outcomes\<close>

definition outcome_inv :: "('p, 's) QueueState \<Rightarrow> bool" where
  "outcome_inv s =
     (\<forall>j \<in> set (jobs s). (videoUrl j \<noteq> None \<longleftrightarrow> status j = Completed) \<and>
                           (error j \<noteq> None \<longleftrightarrow> status j = Failed))"

section \<open>The automation agents (src/content-scripts/tiktok-controller.ts)\<close>

text \<open>
  The file holds two content scripts: \<^verbatim>\<open>TikTokController\<close>, which uploads and posts a video,
  and \<^verbatim>\<open>FlowController\<close>, which drives the video generation page. Both are asynchronous
  code against a page that the agent does not control. The model makes the three
  things explicit that the code takes from its environment:
  \<^item> the page: \<open>page env t\<close> is the document as a query at clock reading \<open>t\<close> finds it,
    for any behaviour of the page over time;
  \<^item> the clock: \<^verbatim>\<open>Date.now()\<close> is the field \<open>clock\<close> of the world; time passes in
    \<^verbatim>\<open>sleep\<close> (and in a network request), a \<^verbatim>\<open>sleep(ms)\<close> taking \<open>ms\<close> milliseconds;
  \<^item> the effects: every interaction with the page is appended to \<open>trace\<close> with the
    clock reading at which it happens, every \<^verbatim>\<open>chrome.runtime.sendMessage\<close> to \<open>outbox\<close>.
  A thrown \<^verbatim>\<open>Error\<close> is the value \<open>Inl message\<close>.
\<close>

subsection \<open>Strings\<close>








subsection \<open>The document\<close>









subsection \<open>Environment, world, effects\<close>



text \<open>
  \<open>random_ms env t\<close> is the value of \<^verbatim>\<open>Math.random() * 50\<close> read at \<open>t\<close>;
  \<open>parse_url env u base\<close> is the host name and path name of \<^verbatim>\<open>new URL(u, base)\<close>, or
  \<open>None\<close> when the constructor throws; \<open>fetch env t u\<close> is the outcome of
  \<^verbatim>\<open>fetch(u)\<close> started at \<open>t\<close> and the milliseconds it takes.
\<close>

datatype action =
    ScrollIntoView string
  | MouseEnter string
  | Click string
  | Focus string
  | SetValue string string
  | AppendValue string char
  | InputEvent string
  | ChangeEvent string
  | KeyDownEscape
  | SetFiles string string
  | SetInnerHTML string string
  | Navigate string
  | SetScheduleValue string int

datatype message =
    VIDEO_CREATED string string
  | VIDEO_FAILED string string
  | VIDEO_POSTED string string string
  | POST_FAILED string string string

record 'a world =
  clock :: int
  agent :: 'a
  trace :: "(int \<times> action) list"
  outbox :: "message list"







subsection \<open>Waiting for the page (both controllers)\<close>








subsection \<open>FlowController\<close>




record VoiceSettings =
  language :: string
  gender :: string



definition gf_progressText :: string where "gf_progressText = ''googleFlow.progressText''"






































subsection \<open>TikTokController\<close>






definition tt_uploadProgress :: string where "tt_uploadProgress = ''tiktok.uploadProgress''"



















subsection \<open>Steps that only read the page, wait and interact\<close>

text \<open>
  \<open>later w w'\<close>: the world \<open>w'\<close> comes after \<open>w\<close> with the agent state and the sent
  messages unchanged, the clock not set back, and the trace extended by interactions
  that happen at or after the clock reading of \<open>w\<close>. A step is steady when every run of
  it ends in such a world.
\<close>

definition later :: "'a world \<Rightarrow> 'a world \<Rightarrow> bool" where
  "later w w' =
     (agent w' = agent w \<and> outbox w' = outbox w \<and> clock w \<le> clock w' \<and>
      (\<exists>new. trace w' = trace w @ new \<and> (\<forall>x \<in> set new. clock w \<le> fst x)))"

definition steady :: "('a world \<Rightarrow> (string + 'r) \<times> 'a world) \<Rightarrow> bool" where
  "steady m = (\<forall>w. later w (snd (m w)))"

subsection \<open>Example pages, requests and worlds\<close>





















section \<open>Properties of the job store\<close>

subsection \<open>Looking a job up after an operation\<close>

lemma find_map_same:
  "(\<And>x. P (f x) = P x) \<Longrightarrow> find P (map f xs) = map_option f (find P xs)"
  by (induction xs) auto



lemma find_distinct_nth:
  "distinct (map f xs) \<Longrightarrow> k < length xs \<Longrightarrow> find (\<lambda>x. f x = f (xs ! k)) xs = Some (xs ! k)"
proof (induction xs arbitrary: k)
  case Nil
  then show ?case by simp
next
  case (Cons a xs)
  show ?case
  proof (cases k)
    case 0
    then show ?thesis by simp
  next
    case (Suc m)
    with Cons.prems have "m < length xs" and "f (xs ! m) \<in> f ` set xs" and "f a \<notin> f ` set xs"
      by auto
    then have "f a \<noteq> f (xs ! m)" by metis
    with Cons Suc show ?thesis by auto
  qed
qed

lemma map_distinct_update:
  "distinct (map f xs) \<Longrightarrow> k < length xs \<Longrightarrow>
   map (\<lambda>x. if f x = f (xs ! k) then g x else x) xs = xs[k := g (xs ! k)]"
proof (induction xs arbitrary: k)
  case Nil
  then show ?case by simp
next
  case (Cons a xs)
  show ?case
  proof (cases k)
    case 0
    from Cons.prems have "f a \<notin> f ` set xs" by simp
    then have "\<forall>x\<in>set xs. f x \<noteq> f a" by (metis image_eqI)
    then have "map (\<lambda>x. if f x = f a then g x else x) xs = xs"
      by (simp add: map_idI)
    with 0 show ?thesis by simp
  next
    case (Suc m)
    with Cons.prems have "m < length xs" and "f (xs ! m) \<in> f ` set xs" and "f a \<notin> f ` set xs"
      by auto
    then have "f a \<noteq> f (xs ! m)" by metis
    with Cons Suc show ?thesis by auto
  qed
qed

lemma getJobById_map:
  "(\<And>x. jobId (f x) = jobId x) \<Longrightarrow> getJobById (s\<lparr>jobs := map f (jobs s)\<rparr>) i = map_option f (getJobById s i)"
  unfolding getJobById_def by (induction "jobs s" arbitrary: s) (simp_all add: find_map_same)

lemma getJobById_id: "getJobById s i = Some j \<Longrightarrow> jobId j = i"
  by (auto simp: getJobById_def find_Some_iff)

lemma getJobById_upd:
  assumes "getJobById s i = Some j" and "\<And>x. jobId (g x) = jobId x"
  shows "getJobById (s\<lparr>jobs := map (\<lambda>job. if jobId job = i then g job else job) (jobs s)\<rparr>) i = Some (g j)"
proof -
  have "getJobById (s\<lparr>jobs := map (\<lambda>job. if jobId job = i then g job else job) (jobs s)\<rparr>) i
        = map_option (\<lambda>job. if jobId job = i then g job else job) (getJobById s i)"
    by (rule getJobById_map) (simp add: assms(2))
  with assms(1) getJobById_id [OF assms(1)] show ?thesis by simp
qed

lemma getJobById_other_fields [simp]:
  "getJobById (s\<lparr>activeJobId := a\<rparr>) i = getJobById s i"
  "getJobById (s\<lparr>isProcessing := b\<rparr>) i = getJobById s i"
  "getJobById (s\<lparr>dailyCreated := c\<rparr>) i = getJobById s i"
  by (simp_all add: getJobById_def)




lemma length_apply_op: "length (jobs (apply_op op s)) \<le> max (length (jobs s)) MAX_QUEUE_SIZE"
  by (cases op)
     (auto simp: addJob_def removeJob_def clearCompletedJobs_def clearFailedJobs_def
        clearAllJobs_def startJob_def completeJob_def failJob_def retryJob_def cancelJob_def
        updateProgress_def setFlowJobId_def setActiveJob_def setProcessing_def
        incrementDailyCreated_def resetDailyStats_def MAX_QUEUE_SIZE_def
        intro: le_trans [OF length_filter_le] split: option.splits)

lemma length_run_ops:
  "length (jobs s) \<le> MAX_QUEUE_SIZE \<Longrightarrow> length (jobs (run_ops ops s)) \<le> MAX_QUEUE_SIZE"
proof (induction ops arbitrary: s)
  case Nil
  then show ?case by simp
next
  case (Cons op ops)
  have "length (jobs (apply_op op s)) \<le> max (length (jobs s)) MAX_QUEUE_SIZE"
    by (rule length_apply_op)
  with Cons.prems have "length (jobs (apply_op op s)) \<le> MAX_QUEUE_SIZE" by simp
  then show ?case using Cons.IH by simp
qed

lemma length_reachable: "length (jobs (run_ops ops initialState)) \<le> MAX_QUEUE_SIZE"
  by (rule length_run_ops) (simp add: initialState_def)

lemma count_map_mono:
  "(\<And>x. P x \<Longrightarrow> P (f x)) \<Longrightarrow> length (filter P xs) \<le> length (filter P (map f xs))"
  by (induction xs) auto

lemma count_map_strict:
  "(\<And>x. P x \<Longrightarrow> P (f x)) \<Longrightarrow> x \<in> set xs \<Longrightarrow> \<not> P x \<Longrightarrow> P (f x) \<Longrightarrow>
   length (filter P xs) < length (filter P (map f xs))"
proof (induction xs)
  case Nil
  then show ?case by simp
next
  case (Cons a xs)
  have m: "length (filter P xs) \<le> length (filter P (map f xs))"
    using Cons.prems(1) by (rule count_map_mono)
  show ?case
  proof (cases "x = a")
    case True
    with Cons.prems m show ?thesis by simp
  next
    case False
    with Cons have "length (filter P xs) < length (filter P (map f xs))" by simp
    with Cons.prems(1) show ?thesis by auto
  qed
qed


subsection \<open>What each transition does to the job it finds\<close>

lemma lookup_after_transition:
  assumes "getJobById s i = Some j"
  shows "getJobById (startJob now i s) i =
           Some (j\<lparr>status := Processing, progress := 0, updatedAt := now\<rparr>) \<and>
         getJobById (completeJob now i url thumb s) i =
           Some (j\<lparr>status := Completed, progress := 100, videoUrl := Some url,
                   thumbnailUrl := thumb, completedAt := Some now, updatedAt := now\<rparr>) \<and>
         getJobById (failJob now i err s) i =
           Some (j\<lparr>status := Failed, error := Some err, updatedAt := now\<rparr>) \<and>
         getJobById (cancelJob now i s) i = Some (j\<lparr>status := Cancelled, updatedAt := now\<rparr>) \<and>
         (retryCount j < 3 \<longrightarrow>
            getJobById (retryJob now i s) i =
              Some (j\<lparr>status := Pending, progress := 0, error := None,
                      retryCount := retryCount j + 1, updatedAt := now\<rparr>)) \<and>
         (retryCount j \<ge> 3 \<longrightarrow> retryJob now i s = s)"
proof -
  note u = getJobById_upd [OF assms]
  have a: "getJobById (startJob now i s) i =
           Some (j\<lparr>status := Processing, progress := 0, updatedAt := now\<rparr>)"
    using u [of "\<lambda>job. job\<lparr>status := Processing, progress := 0, updatedAt := now\<rparr>"]
    by (simp add: startJob_def)
  have b: "getJobById (completeJob now i url thumb s) i =
           Some (j\<lparr>status := Completed, progress := 100, videoUrl := Some url,
                   thumbnailUrl := thumb, completedAt := Some now, updatedAt := now\<rparr>)"
    using u [of "\<lambda>job. job\<lparr>status := Completed, progress := 100, videoUrl := Some url,
                   thumbnailUrl := thumb, completedAt := Some now, updatedAt := now\<rparr>"]
    by (simp add: completeJob_def)
  have c: "getJobById (failJob now i err s) i =
           Some (j\<lparr>status := Failed, error := Some err, updatedAt := now\<rparr>)"
    using u [of "\<lambda>job. job\<lparr>status := Failed, error := Some err, updatedAt := now\<rparr>"]
    by (simp add: failJob_def)
  have d: "getJobById (cancelJob now i s) i = Some (j\<lparr>status := Cancelled, updatedAt := now\<rparr>)"
    using u [of "\<lambda>job. job\<lparr>status := Cancelled, updatedAt := now\<rparr>"]
    by (simp add: cancelJob_def)
  from assms have f: "find (\<lambda>job. jobId job = i) (jobs s) = Some j"
    by (simp add: getJobById_def)
  have e: "retryCount j < 3 \<longrightarrow>
            getJobById (retryJob now i s) i =
              Some (j\<lparr>status := Pending, progress := 0, error := None,
                      retryCount := retryCount j + 1, updatedAt := now\<rparr>)"
    using u [of "\<lambda>job. job\<lparr>status := Pending, progress := 0, error := None,
                      retryCount := retryCount job + 1, updatedAt := now\<rparr>"]
    by (simp add: retryJob_def f DEFAULT_RETRY_COUNT_def)
  have g: "retryCount j \<ge> 3 \<longrightarrow> retryJob now i s = s"
    by (simp add: retryJob_def f DEFAULT_RETRY_COUNT_def)
  from a b c d e g show ?thesis by blast
qed

subsection \<open>Steps of the two invariants\<close>

lemma outcome_inv_step:
  assumes "outcome_inv s" and "sm_valid op s"
  shows "outcome_inv (apply_op op s)"
proof (cases op)
  case (AddJob newId now params)
  with assms show ?thesis by (auto simp: outcome_inv_def addJob_def newJob_def)
next
  case (RemoveJob i)
  with assms show ?thesis by (auto simp: outcome_inv_def removeJob_def)
next
  case ClearCompletedJobs
  with assms show ?thesis by (auto simp: outcome_inv_def clearCompletedJobs_def)
next
  case ClearFailedJobs
  with assms show ?thesis by (auto simp: outcome_inv_def clearFailedJobs_def)
next
  case ClearAllJobs
  with assms show ?thesis by (auto simp: outcome_inv_def clearAllJobs_def)
next
  case (StartJob now i)
  with assms show ?thesis
    by (auto simp: outcome_inv_def startJob_def all_with_id_def list_all_iff)
next
  case (CompleteJob now i url thumb)
  with assms show ?thesis
    by (auto simp: outcome_inv_def completeJob_def all_with_id_def list_all_iff)
next
  case (FailJob now i err)
  with assms show ?thesis
    by (auto simp: outcome_inv_def failJob_def all_with_id_def list_all_iff)
next
  case (RetryJob now i)
  with assms show ?thesis
    by (auto simp: outcome_inv_def retryJob_def all_with_id_def list_all_iff split: option.splits)
next
  case (CancelJob now i)
  with assms show ?thesis
    by (fastforce simp: outcome_inv_def cancelJob_def all_with_id_def list_all_iff)
next
  case (UpdateProgress now i p)
  with assms show ?thesis by (auto simp: outcome_inv_def updateProgress_def)
next
  case (SetFlowJobId now i fid)
  with assms show ?thesis by (auto simp: outcome_inv_def setFlowJobId_def)
next
  case (SetActiveJob i)
  with assms show ?thesis by (auto simp: outcome_inv_def setActiveJob_def)
next
  case (SetProcessing b)
  with assms show ?thesis by (auto simp: outcome_inv_def setProcessing_def)
next
  case IncrementDailyCreated
  with assms show ?thesis by (auto simp: outcome_inv_def incrementDailyCreated_def)
next
  case ResetDailyStats
  with assms show ?thesis by (auto simp: outcome_inv_def resetDailyStats_def)
qed

lemma outcome_inv_run:
  "outcome_inv s \<Longrightarrow> follows_sm ops s \<Longrightarrow> outcome_inv (run_ops ops s)"
  by (induction ops arbitrary: s) (auto intro: outcome_inv_step)


section \<open>The claims about the job store\<close>

text \<open>
  C1 (as stated: a transition that the state machine does not list is rejected with an
  error and leaves the job unchanged). The store does not do so: \<^verbatim>\<open>cancelJob\<close> on the
  completed job of \<open>demo_completed\<close> turns it into a cancelled job.
\<close>

theorem cancel_completed_counterexample:
  "map_option status (getJobById demo_completed ''j1'') = Some Completed \<and>
   map_option status (getJobById (cancelJob 40 ''j1'' demo_completed) ''j1'') = Some Cancelled"
  by (simp add: demo_completed_def demo_params_def initialState_def addJob_def newJob_def
      startJob_def completeJob_def cancelJob_def getJobById_def MAX_QUEUE_SIZE_def)

text \<open>
  C1 (amended). The transitions of the store check no source state and have no error
  result. For the job \<open>j\<close> that the store finds under the identifier, in whatever status:
  \<^verbatim>\<open>startJob\<close>, \<^verbatim>\<open>completeJob\<close>, \<^verbatim>\<open>failJob\<close> and \<^verbatim>\<open>cancelJob\<close> make it processing,
  completed, failed and cancelled, with the side effects of each; \<^verbatim>\<open>retryJob\<close> looks at
  the retry count alone: below 3 it makes the job pending again, from 3 on it leaves
  the whole store as it is.
\<close>

theorem transitions_unchecked:
  assumes "getJobById s i = Some j"
  shows "getJobById (startJob now i s) i =
           Some (j\<lparr>status := Processing, progress := 0, updatedAt := now\<rparr>) \<and>
         getJobById (completeJob now i url thumb s) i =
           Some (j\<lparr>status := Completed, progress := 100, videoUrl := Some url,
                   thumbnailUrl := thumb, completedAt := Some now, updatedAt := now\<rparr>) \<and>
         getJobById (failJob now i err s) i =
           Some (j\<lparr>status := Failed, error := Some err, updatedAt := now\<rparr>) \<and>
         getJobById (cancelJob now i s) i = Some (j\<lparr>status := Cancelled, updatedAt := now\<rparr>) \<and>
         (retryCount j < 3 \<longrightarrow>
            getJobById (retryJob now i s) i =
              Some (j\<lparr>status := Pending, progress := 0, error := None,
                      retryCount := retryCount j + 1, updatedAt := now\<rparr>)) \<and>
         (retryCount j \<ge> 3 \<longrightarrow> retryJob now i s = s)"
  using assms by (rule lookup_after_transition)

theorem transitions_unchecked_witness:
  "getJobById demo_completed ''j1'' \<noteq> None \<and>
   map_option status (getJobById (startJob 40 ''j1'' demo_completed) ''j1'') = Some Processing \<and>
   map_option status (getJobById (retryJob 40 ''j1'' demo_completed) ''j1'') = Some Pending \<and>
   getJobById demo_exhausted ''j1'' \<noteq> None \<and>
   retryJob 130 ''j1'' demo_exhausted = demo_exhausted"
proof -
  obtain j where j: "getJobById demo_completed ''j1'' = Some j" and rj: "retryCount j < 3"
    by (simp add: demo_completed_def demo_params_def initialState_def addJob_def newJob_def
        startJob_def completeJob_def getJobById_def MAX_QUEUE_SIZE_def)
  obtain e where e: "getJobById demo_exhausted ''j1'' = Some e" and re: "retryCount e \<ge> 3"
    by (simp add: demo_exhausted_def demo_params_def initialState_def addJob_def newJob_def
        startJob_def failJob_def retryJob_def getJobById_def MAX_QUEUE_SIZE_def
        DEFAULT_RETRY_COUNT_def)
  from transitions_unchecked [OF j, of 40] rj
  have "map_option status (getJobById (startJob 40 ''j1'' demo_completed) ''j1'') = Some Processing"
    and "map_option status (getJobById (retryJob 40 ''j1'' demo_completed) ''j1'') = Some Pending"
    by simp_all
  moreover from transitions_unchecked [OF e, of 130] re
  have "retryJob 130 ''j1'' demo_exhausted = demo_exhausted" by simp
  ultimately show ?thesis using j e by simp
qed

text \<open>
  C2 (as stated: after any sequence of store operations a job that has left processing
  carries exactly one of video URL and error, never both). Failing the completed job
  of \<open>demo_completed\<close> leaves a failed job that carries both.
\<close>

theorem complete_then_fail_counterexample:
  "map_option status (getJobById (failJob 40 ''j1'' ''Upload failed'' demo_completed) ''j1'')
     = Some Failed \<and>
   map_option videoUrl (getJobById (failJob 40 ''j1'' ''Upload failed'' demo_completed) ''j1'')
     = Some (Some ''https://video/1'') \<and>
   map_option error (getJobById (failJob 40 ''j1'' ''Upload failed'' demo_completed) ''j1'')
     = Some (Some ''Upload failed'')"
  by (simp add: demo_completed_def demo_params_def initialState_def addJob_def newJob_def
      startJob_def completeJob_def failJob_def getJobById_def MAX_QUEUE_SIZE_def)

text \<open>
  C2 (amended). For every sequence of store operations from the initial state that
  follows the state machine (the store itself does not enforce it), and every job
  in the store afterwards: the video URL is populated exactly when the job is completed,
  the error exactly when it is failed, and never both. A cancelled job carries neither.
\<close>

theorem outcome_populated_on_state_machine:
  assumes "follows_sm ops initialState" and "j \<in> set (jobs (run_ops ops initialState))"
  shows "(videoUrl j \<noteq> None \<longleftrightarrow> status j = Completed) \<and>
         (error j \<noteq> None \<longleftrightarrow> status j = Failed) \<and>
         \<not> (videoUrl j \<noteq> None \<and> error j \<noteq> None)"
proof -
  have "outcome_inv (initialState :: ('a, 'b) QueueState)"
    by (simp add: outcome_inv_def initialState_def)
  then have "outcome_inv (run_ops ops initialState)" using assms(1) by (rule outcome_inv_run)
  with assms(2) show ?thesis by (auto simp: outcome_inv_def)
qed

theorem outcome_populated_on_state_machine_witness:
  "follows_sm [AddJob ''j1'' 10 demo_params, StartJob 20 ''j1'',
               CompleteJob 30 ''j1'' ''https://video/1'' None] initialState \<and>
   jobs demo_completed \<noteq> [] \<and>
   videoUrl (hd (jobs demo_completed)) \<noteq> None \<and>
   status (hd (jobs demo_completed)) = Completed \<and>
   error (hd (jobs demo_completed)) = None"
proof -
  have f: "follows_sm [AddJob ''j1'' 10 demo_params, StartJob 20 ''j1'',
               CompleteJob 30 ''j1'' ''https://video/1'' None] initialState"
    by (simp add: all_with_id_def demo_params_def initialState_def addJob_def newJob_def
        startJob_def MAX_QUEUE_SIZE_def)
  have n: "jobs demo_completed \<noteq> []"
    by (simp add: demo_completed_def demo_params_def initialState_def addJob_def newJob_def
        startJob_def completeJob_def MAX_QUEUE_SIZE_def)
  then have m: "hd (jobs demo_completed) \<in> set (jobs (run_ops [AddJob ''j1'' 10 demo_params,
               StartJob 20 ''j1'', CompleteJob 30 ''j1'' ''https://video/1'' None] initialState))"
    by (simp add: demo_completed_def)
  have c: "status (hd (jobs demo_completed)) = Completed"
    by (simp add: demo_completed_def demo_params_def initialState_def addJob_def newJob_def
        startJob_def completeJob_def MAX_QUEUE_SIZE_def)
  from outcome_populated_on_state_machine [OF f m] c f n show ?thesis by auto
qed

text \<open>
  C3 (as stated: the number of jobs in processing never exceeds
  \<open>MAX_CONCURRENT_JOBS = 3\<close>). The store starts a fourth job while three are
  processing: in \<open>demo_four_started\<close> four jobs are processing at once.
\<close>

theorem four_processing_counterexample:
  "processing (getStats demo_four_started) = 4 \<and>
   \<not> processing (getStats demo_four_started) \<le> MAX_CONCURRENT_JOBS"
  by (simp add: demo_four_started_def demo_params_def initialState_def addJob_def newJob_def
      startJob_def getStats_def MAX_QUEUE_SIZE_def MAX_CONCURRENT_JOBS_def)

text \<open>
  C3 (amended). The store places no concurrency limit on \<^verbatim>\<open>startJob\<close>: it never lowers the
  number of processing jobs and raises it whenever a stored job with the identifier
  is not yet processing, whatever that number was. After any sequence of store
  operations from the initial state the number of processing jobs is bounded by the
  number of stored jobs only, which is at most \<open>MAX_QUEUE_SIZE = 100\<close>.
\<close>

theorem processing_unbounded_by_store:
  "processing (getStats (run_ops ops initialState)) \<le> length (jobs (run_ops ops initialState)) \<and>
   length (jobs (run_ops ops (initialState :: ('p, 's) QueueState))) \<le> MAX_QUEUE_SIZE \<and>
   processing (getStats s) \<le> processing (getStats (startJob now i s)) \<and>
   (\<forall>job \<in> set (jobs s). jobId job = i \<and> status job \<noteq> Processing \<longrightarrow>
      processing (getStats s) < processing (getStats (startJob now i s)))"
proof -
  let ?P = "\<lambda>j :: ('a, 'b) VideoJob. status j = Processing"
  let ?f = "\<lambda>job :: ('a, 'b) VideoJob. if jobId job = i
              then job\<lparr>status := Processing, progress := 0, updatedAt := now\<rparr> else job"
  have mono: "\<And>x. ?P x \<Longrightarrow> ?P (?f x)" by simp
  have a: "processing (getStats s) \<le> processing (getStats (startJob now i s))"
    using count_map_mono [of ?P ?f "jobs s"] by (simp add: getStats_def startJob_def)
  have b: "\<forall>job \<in> set (jobs s). jobId job = i \<and> status job \<noteq> Processing \<longrightarrow>
      processing (getStats s) < processing (getStats (startJob now i s))"
  proof (intro ballI impI)
    fix job assume "job \<in> set (jobs s)" and "jobId job = i \<and> status job \<noteq> Processing"
    then show "processing (getStats s) < processing (getStats (startJob now i s))"
      using count_map_strict [of ?P ?f job "jobs s"] by (simp add: getStats_def startJob_def)
  qed
  have c: "processing (getStats (run_ops ops initialState)) \<le> length (jobs (run_ops ops initialState))"
    by (simp add: getStats_def)
  from a b c length_reachable [of ops] show ?thesis by blast
qed

theorem processing_unbounded_by_store_witness:
  "newJob ''j1'' 10 demo_params \<in> set (jobs (snd (addJob ''j1'' 10 demo_params initialState))) \<and>
   status (newJob ''j1'' 10 demo_params) \<noteq> Processing \<and>
   processing (getStats (snd (addJob ''j1'' 10 demo_params initialState)))
     < processing (getStats (startJob 20 ''j1'' (snd (addJob ''j1'' 10 demo_params initialState))))"
proof -
  have m: "newJob ''j1'' 10 demo_params \<in> set (jobs (snd (addJob ''j1'' 10 demo_params initialState)))"
    by (simp add: addJob_def initialState_def MAX_QUEUE_SIZE_def)
  have i: "jobId (newJob ''j1'' 10 demo_params) = ''j1'' \<and>
           status (newJob ''j1'' 10 demo_params) \<noteq> Processing"
    by (simp add: newJob_def)
  from processing_unbounded_by_store
         [of "[]" "snd (addJob ''j1'' 10 demo_params initialState)" 20 "''j1''"] m i
  show ?thesis by blast
qed

text \<open>
  C4. For every job of a store with distinct identifiers, and so for every failed
  one: with a retry count of 3 (\<open>DEFAULT_RETRY_COUNT\<close>) or more, \<^verbatim>\<open>retryJob\<close> leaves the
  whole store state unchanged; with a lower retry count, the store afterwards differs
  in that job only, which is pending, with progress 0, no error and a retry count
  one higher (and the time of the update).
\<close>

theorem retryJob_capped:
  assumes "distinct (map jobId (jobs s))" and "k < length (jobs s)" and "jobs s ! k = j"
  shows "(retryCount j \<ge> 3 \<longrightarrow> retryJob now (jobId j) s = s) \<and>
         (retryCount j < 3 \<longrightarrow>
            retryJob now (jobId j) s =
              s\<lparr>jobs := (jobs s)[k := j\<lparr>status := Pending, progress := 0, error := None,
                                         retryCount := retryCount j + 1, updatedAt := now\<rparr>]\<rparr>)"
proof -
  from assms have f: "find (\<lambda>x. jobId x = jobId j) (jobs s) = Some j"
    using find_distinct_nth [of jobId "jobs s" k] by simp
  from assms have m: "map (\<lambda>x. if jobId x = jobId j then g x else x) (jobs s) = (jobs s)[k := g j]" for g
    using map_distinct_update [of jobId "jobs s" k g] by simp
  show ?thesis
    by (simp add: retryJob_def f m DEFAULT_RETRY_COUNT_def)
qed

theorem retryJob_capped_witness:
  "distinct (map jobId (jobs demo_failed)) \<and> 0 < length (jobs demo_failed) \<and>
   status (jobs demo_failed ! 0) = Failed \<and> retryCount (jobs demo_failed ! 0) < 3 \<and>
   map_option status (getJobById (retryJob 40 ''j1'' demo_failed) ''j1'') = Some Pending \<and>
   map_option retryCount (getJobById (retryJob 40 ''j1'' demo_failed) ''j1'') = Some 1 \<and>
   distinct (map jobId (jobs demo_exhausted)) \<and> 0 < length (jobs demo_exhausted) \<and>
   status (jobs demo_exhausted ! 0) = Failed \<and> 3 \<le> retryCount (jobs demo_exhausted ! 0) \<and>
   retryJob 130 ''j1'' demo_exhausted = demo_exhausted"
proof -
  have f: "jobs demo_failed =
      [(newJob ''j1'' 10 demo_params)\<lparr>status := Failed, progress := 0,
         error := Some ''Video generation timed out'', updatedAt := 30\<rparr>]"
    by (simp add: demo_failed_def initialState_def addJob_def newJob_def
        startJob_def failJob_def MAX_QUEUE_SIZE_def)
  have e: "jobs demo_exhausted =
      [(newJob ''j1'' 10 demo_params)\<lparr>status := Failed, progress := 0,
         error := Some ''Generation failed'', updatedAt := 120, retryCount := 3\<rparr>]"
    by (simp add: demo_exhausted_def initialState_def addJob_def newJob_def
        startJob_def failJob_def retryJob_def MAX_QUEUE_SIZE_def DEFAULT_RETRY_COUNT_def)
  have f1: "distinct (map jobId (jobs demo_failed))" and f2: "0 < length (jobs demo_failed)"
    and e1: "distinct (map jobId (jobs demo_exhausted))" and e2: "0 < length (jobs demo_exhausted)"
    by (simp_all add: f e)
  from retryJob_capped [OF f1 f2 refl, of 40]
  have "retryJob 40 ''j1'' demo_failed =
          demo_failed\<lparr>jobs := [(jobs demo_failed ! 0)\<lparr>status := Pending, progress := 0,
             error := None, retryCount := 1, updatedAt := 40\<rparr>]\<rparr>"
    by (simp add: f newJob_def)
  then have a: "map_option status (getJobById (retryJob 40 ''j1'' demo_failed) ''j1'') = Some Pending"
    and b: "map_option retryCount (getJobById (retryJob 40 ''j1'' demo_failed) ''j1'') = Some 1"
    by (simp_all add: getJobById_def f newJob_def)
  from retryJob_capped [OF e1 e2 refl, of 130]
  have c: "retryJob 130 ''j1'' demo_exhausted = demo_exhausted"
    by (simp add: e newJob_def)
  from a b c f1 f2 e1 e2 show ?thesis by (simp add: f e newJob_def)
qed






text \<open>
  C10. Whatever the store state and the identifier (one that matches no job or is
  not the active one included): \<^verbatim>\<open>completeJob\<close> and \<^verbatim>\<open>failJob\<close> set \<^verbatim>\<open>activeJobId\<close> to
  undefined and \<^verbatim>\<open>isProcessing\<close> to false, and \<^verbatim>\<open>completeJob\<close> adds one to \<^verbatim>\<open>dailyCreated\<close>;
  \<^verbatim>\<open>cancelJob\<close> clears the two only when the identifier is the active one; the three keep
  the length of the list and every job whose identifier differs from the argument.
\<close>

theorem complete_fail_cancel_frame:
  "activeJobId (completeJob now i url thumb s) = None \<and>
   isProcessing (completeJob now i url thumb s) = False \<and>
   dailyCreated (completeJob now i url thumb s) = dailyCreated s + 1 \<and>
   activeJobId (failJob now i err s) = None \<and>
   isProcessing (failJob now i err s) = False \<and>
   activeJobId (cancelJob now i s) = (if activeJobId s = Some i then None else activeJobId s) \<and>
   isProcessing (cancelJob now i s) = (if activeJobId s = Some i then False else isProcessing s) \<and>
   length (jobs (completeJob now i url thumb s)) = length (jobs s) \<and>
   length (jobs (failJob now i err s)) = length (jobs s) \<and>
   length (jobs (cancelJob now i s)) = length (jobs s) \<and>
   (\<forall>k < length (jobs s). jobId (jobs s ! k) \<noteq> i \<longrightarrow>
      jobs (completeJob now i url thumb s) ! k = jobs s ! k \<and>
      jobs (failJob now i err s) ! k = jobs s ! k \<and>
      jobs (cancelJob now i s) ! k = jobs s ! k)"
  by (simp add: completeJob_def failJob_def cancelJob_def)

theorem complete_fail_cancel_frame_witness:
  "1 < length (jobs demo_four_started) \<and> jobId (jobs demo_four_started ! 1) \<noteq> ''j1'' \<and>
   activeJobId demo_four_started = Some ''j4'' \<and>
   jobs (completeJob 40 ''j1'' ''https://video/1'' None demo_four_started) ! 1
     = jobs demo_four_started ! 1 \<and>
   jobs (failJob 40 ''j1'' ''Generation failed'' demo_four_started) ! 1 = jobs demo_four_started ! 1 \<and>
   jobs (cancelJob 40 ''j1'' demo_four_started) ! 1 = jobs demo_four_started ! 1 \<and>
   activeJobId (completeJob 40 ''j1'' ''https://video/1'' None demo_four_started) = None \<and>
   activeJobId (cancelJob 40 ''j1'' demo_four_started) = Some ''j4''"
proof -
  have l: "1 < length (jobs demo_four_started)"
    and i: "jobId (jobs demo_four_started ! 1) \<noteq> ''j1''"
    and a: "activeJobId demo_four_started = Some ''j4''"
    by (simp_all add: demo_four_started_def demo_params_def initialState_def addJob_def
        newJob_def startJob_def MAX_QUEUE_SIZE_def)
  from complete_fail_cancel_frame
         [of 40 "''j1''" "''https://video/1''" None demo_four_started "''Generation failed''"]
       l i a
  show ?thesis by simp
qed

section \<open>Properties of the automation agents\<close>

subsection \<open>Every step after the rate limit is steady\<close>













lemma steady_dep: "(\<And>v. steady (g v)) \<Longrightarrow> steady (\<lambda>w. g (h w) w)"
  by (simp add: steady_def)

































subsection \<open>The rate limit and the pace of a command\<close>







subsection \<open>The two completion loops\<close>












subsection \<open>The example pages\<close>






section \<open>The claims about the automation agents\<close>









end
